theory Spec2Isabelle
  imports Complex_Main "HOL-Library.Word" "HOL-Library.Log_Nat"
begin

unbundle bit_operations_syntax

section \<open>The C library functions blink.c calls\<close>

text \<open>
  \<^verbatim>\<open>blink.c\<close> is one translation unit: two parsers (\<^verbatim>\<open>parse_color\<close>,
  \<^verbatim>\<open>parse_duration\<close>) and \<^verbatim>\<open>main\<close>. The parsers rest on \<^verbatim>\<open>strtoul\<close>,
  \<^verbatim>\<open>strtof\<close> and \<^verbatim>\<open>atoi\<close>, which are modelled here after ISO C (C11 7.22.1) in the
  "C" locale. A C string is a \<open>string\<close> without its terminating NUL: the test
  \<^verbatim>\<open>*end == '\0'\<close> is \<open>rest = []\<close>. Where ISO C leaves the behaviour undefined the model
  returns \<open>None\<close>.
\<close>

definition isspace :: "char \<Rightarrow> bool" where
  "isspace c \<longleftrightarrow> c \<in> set [CHR '' '', CHR 0x09, CHR 0x0A, CHR 0x0B, CHR 0x0C, CHR 0x0D]"

definition isdigit :: "char \<Rightarrow> bool" where
  "isdigit c \<longleftrightarrow> c \<in> set ''0123456789''"

definition isxdigit :: "char \<Rightarrow> bool" where
  "isxdigit c \<longleftrightarrow> c \<in> set ''0123456789abcdefABCDEF''"

text \<open>The value of a digit character in bases up to 16.\<close>

definition digit_val :: "char \<Rightarrow> nat" where
  "digit_val c =
     (if isdigit c then of_char c - 48
      else if c \<in> set ''abcdef'' then of_char c - 87
      else if c \<in> set ''ABCDEF'' then of_char c - 55
      else 0)"

text \<open>The number a digit sequence denotes in base \<open>b\<close>, most significant digit first.\<close>

definition digits_val :: "nat \<Rightarrow> string \<Rightarrow> nat" where
  "digits_val b ds = foldl (\<lambda>a c. b * a + digit_val c) 0 ds"

text \<open>An optional sign: whether it is a minus, and what follows it.\<close>

definition opt_sign :: "string \<Rightarrow> bool \<times> string" where
  "opt_sign s =
     (case s of
        [] \<Rightarrow> (False, [])
      | c # r \<Rightarrow> if c = CHR ''-'' then (True, r)
                 else if c = CHR ''+'' then (False, r)
                 else (False, s))"

text \<open>
  The optional \<^verbatim>\<open>0x\<close> or \<^verbatim>\<open>0X\<close> of a hexadecimal subject sequence. It belongs to the
  subject sequence only when a hexadecimal digit follows; otherwise the subject sequence is
  the \<^verbatim>\<open>0\<close> alone.
\<close>

definition hex_prefix :: "string \<Rightarrow> string option" where
  "hex_prefix s =
     (case s of
        z # x # h # r \<Rightarrow>
          if z = CHR ''0'' \<and> (x = CHR ''x'' \<or> x = CHR ''X'') \<and> isxdigit h
          then Some (h # r) else None
      | _ \<Rightarrow> None)"

definition ULONG_MAX :: nat where
  "ULONG_MAX = 2 ^ 64 - 1"

text \<open>
  \<^verbatim>\<open>strtoul(s, &end, 16)\<close> with a 64-bit \<^verbatim>\<open>unsigned long\<close> (LP64, the data model of
  the Linux targets of the tool): the converted value and the rest of the string at
  \<^verbatim>\<open>end\<close>. Without a digit nothing is converted: the value is 0 and \<^verbatim>\<open>end\<close> is the
  whole string. A value out of range is \<^verbatim>\<open>ULONG_MAX\<close>; a minus sign negates in the
  unsigned type.
\<close>

definition strtoul16 :: "string \<Rightarrow> nat \<times> string" where
  "strtoul16 s =
     (let (neg, u) = opt_sign (dropWhile isspace s);
          v = (case hex_prefix u of Some w \<Rightarrow> w | None \<Rightarrow> u);
          ds = takeWhile isxdigit v;
          n = digits_val 16 ds
      in if ds = [] then (0, s)
         else (if n > ULONG_MAX then ULONG_MAX
               else if neg then (2 ^ 64 - n) mod 2 ^ 64
               else n,
               dropWhile isxdigit v))"

section \<open>Colors\<close>

text \<open>The table \<^verbatim>\<open>colors[]\<close>, without its sentinel.\<close>

definition colors :: "(string \<times> nat) list" where
  "colors =
     [(''blue'', 0x0000FF),
      (''cyan'', 0x00FFFF),
      (''green'', 0x00FF00),
      (''purple'', 0xFF00FF),
      (''red'', 0xFF0000),
      (''white'', 0xFFFFFF),
      (''yellow'', 0xFFFF00)]"

text \<open>The macros \<^verbatim>\<open>R\<close>, \<^verbatim>\<open>G\<close> and \<^verbatim>\<open>B\<close>, on an \<^verbatim>\<open>int\<close>.\<close>

definition R :: "int \<Rightarrow> int" where
  "R rgb = drop_bit 16 (rgb AND 0xFF0000)"

definition G :: "int \<Rightarrow> int" where
  "G rgb = drop_bit 8 (rgb AND 0x00FF00)"

definition B :: "int \<Rightarrow> int" where
  "B rgb = drop_bit 0 (rgb AND 0x0000FF)"

text \<open>
  The \<^verbatim>\<open>for\<close> loop of \<^verbatim>\<open>parse_color\<close> over the table: the value of the first entry
  whose name \<^verbatim>\<open>strcmp\<close> finds equal to the token.
\<close>

fun lookup_color :: "(string \<times> nat) list \<Rightarrow> string \<Rightarrow> nat option" where
  "lookup_color [] color = None"
| "lookup_color ((name, v) # cs) color =
     (if name = color then Some v else lookup_color cs color)"

text \<open>\<^verbatim>\<open>parse_color\<close>: the 24-bit value of the token, or the error sentinel \<open>-1\<close>.\<close>

definition parse_color :: "string \<Rightarrow> int" where
  "parse_color color =
     (case lookup_color colors color of
        Some v \<Rightarrow> int v
      | None \<Rightarrow>
          (let (val, end) = strtoul16 color
           in if val > 0xFFFFFF then -1
              else if color \<noteq> [] \<and> end = [] then int val
              else -1))"

section \<open>Single-precision arithmetic\<close>

text \<open>
  A \<^verbatim>\<open>float\<close> is an IEEE 754 binary32 value, and arithmetic on it is evaluated in
  binary32 with round-to-nearest-even (\<^verbatim>\<open>FLT_EVAL_METHOD\<close> 0, as on x86-64 and ARM).
  A finite value is the rational number it denotes. The model has one zero: the sign of a
  zero reaches no result of \<^verbatim>\<open>parse_duration\<close>, which compares, multiplies by 100,
  divides by 10 and converts to \<^verbatim>\<open>int\<close>.
\<close>

datatype cfloat = Fin rat | PInf | NInf | NaN

definition scale :: "rat \<Rightarrow> int \<Rightarrow> rat" where
  "scale b e = (if 0 \<le> e then b ^ nat e else 1 / b ^ nat (- e))"

text \<open>The exponent of a positive rational: \<open>scale 2 (ilog2 a) \<le> a < scale 2 (ilog2 a + 1)\<close>.\<close>

definition ilog2 :: "rat \<Rightarrow> int" where
  "ilog2 a =
     (if 1 \<le> a then int (floorlog 2 (nat \<lfloor>a\<rfloor>)) - 1
      else - int (floorlog 2 (nat (\<lceil>1 / a\<rceil> - 1))))"

text \<open>The nearest integer, ties to the even one.\<close>

definition round_even :: "rat \<Rightarrow> int" where
  "round_even x =
     (let f = \<lfloor>x\<rfloor>; d = x - of_int f
      in if d < 1 / 2 then f
         else if 1 / 2 < d then f + 1
         else if even f then f else f + 1)"

text \<open>
  Rounding a rational to binary32: 24 significant bits, the least exponent of a unit in the
  last place is \<open>-149\<close> (subnormal numbers), and a result of \<open>2 ^ 128\<close> or more
  overflows to an infinity.
\<close>

definition round_f32 :: "rat \<Rightarrow> cfloat" where
  "round_f32 x =
     (if x = 0 then Fin 0
      else
        (let a = \<bar>x\<bar>;
             q = max (ilog2 a - 23) (- 149);
             r = of_int (round_even (a / scale 2 q)) * scale 2 q
         in if 2 ^ 128 \<le> r then (if 0 < x then PInf else NInf)
            else Fin (if 0 < x then r else - r)))"

definition fneg :: "cfloat \<Rightarrow> cfloat" where
  "fneg v = (case v of Fin r \<Rightarrow> Fin (- r) | PInf \<Rightarrow> NInf | NInf \<Rightarrow> PInf | NaN \<Rightarrow> NaN)"

text \<open>\<^verbatim>\<open>v * c\<close> and \<^verbatim>\<open>v / c\<close> for a finite constant \<open>c > 0\<close> (100 and 10 in the program).\<close>

definition fmul_const :: "cfloat \<Rightarrow> rat \<Rightarrow> cfloat" where
  "fmul_const v c = (case v of Fin r \<Rightarrow> round_f32 (r * c) | _ \<Rightarrow> v)"

definition fdiv_const :: "cfloat \<Rightarrow> rat \<Rightarrow> cfloat" where
  "fdiv_const v c = (case v of Fin r \<Rightarrow> round_f32 (r / c) | _ \<Rightarrow> v)"

text \<open>\<^verbatim>\<open>a < b\<close> on floats: false as soon as one side is a NaN.\<close>

fun flt :: "cfloat \<Rightarrow> cfloat \<Rightarrow> bool" where
  "flt NaN _ = False"
| "flt _ NaN = False"
| "flt (Fin a) (Fin b) = (a < b)"
| "flt NInf NInf = False"
| "flt NInf _ = True"
| "flt _ NInf = False"
| "flt PInf _ = False"
| "flt _ PInf = True"

definition INT_MIN :: int where
  "INT_MIN = - (2 ^ 31)"

definition INT_MAX :: int where
  "INT_MAX = 2 ^ 31 - 1"

text \<open>
  The conversion of a float to \<^verbatim>\<open>int\<close> (C11 6.3.1.4) discards the fractional part;
  the behaviour is undefined when the integral part is no \<^verbatim>\<open>int\<close>, as for an infinity
  or a NaN.
\<close>

definition trunc :: "rat \<Rightarrow> int" where
  "trunc r = (if 0 \<le> r then \<lfloor>r\<rfloor> else \<lceil>r\<rceil>)"

definition float_to_int :: "cfloat \<Rightarrow> int option" where
  "float_to_int v =
     (case v of
        Fin r \<Rightarrow> if INT_MIN \<le> trunc r \<and> trunc r \<le> INT_MAX then Some (trunc r) else None
      | _ \<Rightarrow> None)"

section \<open>\<^verbatim>\<open>strtof\<close> and \<^verbatim>\<open>atoi\<close>\<close>

definition tolower :: "char \<Rightarrow> char" where
  "tolower c =
     (case map_of (zip ''ABCDEFGHIJKLMNOPQRSTUVWXYZ'' ''abcdefghijklmnopqrstuvwxyz'') c of
        Some l \<Rightarrow> l
      | None \<Rightarrow> c)"

text \<open>
  The digits of a mantissa: those before the radix character, those after it, and the
  rest of the string. The radix character is consumed when a digit stands before or after
  it.
\<close>

definition mantissa :: "(char \<Rightarrow> bool) \<Rightarrow> string \<Rightarrow> string \<times> string \<times> string" where
  "mantissa dig s =
     (let ip = takeWhile dig s; r = dropWhile dig s
      in case r of
           [] \<Rightarrow> (ip, [], r)
         | c # t \<Rightarrow>
             if c = CHR ''.'' \<and> (ip \<noteq> [] \<or> takeWhile dig t \<noteq> [])
             then (ip, takeWhile dig t, dropWhile dig t)
             else (ip, [], r))"

text \<open>
  An optional exponent part: the marker \<open>m\<close> in either case, an optional sign and at
  least one decimal digit. Without a digit no exponent part is there and nothing is
  consumed.
\<close>

definition exponent :: "char \<Rightarrow> string \<Rightarrow> int \<times> string" where
  "exponent m s =
     (case s of
        [] \<Rightarrow> (0, s)
      | c # r \<Rightarrow>
          if tolower c = m then
            (let (neg, t) = opt_sign r; ds = takeWhile isdigit t
             in if ds = [] then (0, s)
                else ((if neg then - int (digits_val 10 ds) else int (digits_val 10 ds)),
                      dropWhile isdigit t))
          else (0, s))"

definition dec_float :: "string \<Rightarrow> (cfloat \<times> string) option" where
  "dec_float u =
     (let (ip, fp, r) = mantissa isdigit u
      in if ip @ fp = [] then None
         else (let (e, t) = exponent (CHR ''e'') r
               in Some (round_f32 (of_nat (digits_val 10 (ip @ fp)) * scale 10 (e - int (length fp))), t)))"

definition hex_float :: "string \<Rightarrow> (cfloat \<times> string) option" where
  "hex_float u =
     (case u of
        z # x # h \<Rightarrow>
          if z = CHR ''0'' \<and> tolower x = CHR ''x'' then
            (let (ip, fp, r) = mantissa isxdigit h
             in if ip @ fp = [] then None
                else (let (e, t) = exponent (CHR ''p'') r
                      in Some (round_f32 (of_nat (digits_val 16 (ip @ fp)) * scale 2 (e - 4 * int (length fp))), t)))
          else None
      | _ \<Rightarrow> None)"

text \<open>What may follow \<^verbatim>\<open>nan\<close>: a parenthesised sequence of digits, letters and underscores.\<close>

definition isnchar :: "char \<Rightarrow> bool" where
  "isnchar c \<longleftrightarrow> isdigit c \<or> c = CHR ''_'' \<or> tolower c \<in> set ''abcdefghijklmnopqrstuvwxyz''"

definition nan_tail :: "string \<Rightarrow> string" where
  "nan_tail s =
     (case s of
        [] \<Rightarrow> s
      | c # r \<Rightarrow>
          if c = CHR ''('' then
            (case dropWhile isnchar r of
               [] \<Rightarrow> s
             | d # t \<Rightarrow> if d = CHR '')'' then t else s)
          else s)"

text \<open>The subject sequence after white space and sign, in the order C11 7.22.1.3 lists it.\<close>

definition float_subject :: "string \<Rightarrow> (cfloat \<times> string) option" where
  "float_subject u =
     (if map tolower (take 8 u) = ''infinity'' then Some (PInf, drop 8 u)
      else if map tolower (take 3 u) = ''inf'' then Some (PInf, drop 3 u)
      else if map tolower (take 3 u) = ''nan'' then Some (NaN, nan_tail (drop 3 u))
      else (case hex_float u of Some p \<Rightarrow> Some p | None \<Rightarrow> dec_float u))"

text \<open>
  \<^verbatim>\<open>strtof(s, &end)\<close>: the correctly rounded value and the rest of the string at
  \<^verbatim>\<open>end\<close>. When nothing is converted the value is 0 and \<^verbatim>\<open>end\<close> is the whole string.
\<close>

definition strtof :: "string \<Rightarrow> cfloat \<times> string" where
  "strtof s =
     (let (neg, u) = opt_sign (dropWhile isspace s)
      in case float_subject u of
           None \<Rightarrow> (Fin 0, s)
         | Some (v, r) \<Rightarrow> (if neg then fneg v else v, r))"

text \<open>
  \<^verbatim>\<open>atoi(s)\<close>: white space, an optional sign and decimal digits; 0 when no digit is there.
  When the number is no \<^verbatim>\<open>int\<close> the behaviour is undefined (C11 7.22.1).
\<close>

definition atoi :: "string \<Rightarrow> int option" where
  "atoi s =
     (let (neg, u) = opt_sign (dropWhile isspace s);
          n = int (digits_val 10 (takeWhile isdigit u));
          v = (if neg then - n else n)
      in if INT_MIN \<le> v \<and> v \<le> INT_MAX then Some v else None)"

section \<open>Durations\<close>

definition DURATION_MAX :: int where
  "DURATION_MAX = 0xffff"

text \<open>The macro \<^verbatim>\<open>CLAMP(val, min, max)\<close>, that is \<^verbatim>\<open>MAX(min, MIN(max, val))\<close>, on \<^verbatim>\<open>int\<close>.\<close>

definition MIN_int :: "int \<Rightarrow> int \<Rightarrow> int" where
  "MIN_int a b = (if a < b then a else b)"

definition MAX_int :: "int \<Rightarrow> int \<Rightarrow> int" where
  "MAX_int a b = (if a > b then a else b)"

definition CLAMP :: "int \<Rightarrow> int \<Rightarrow> int \<Rightarrow> int" where
  "CLAMP val lo hi = MAX_int lo (MIN_int hi val)"

text \<open>
  The same macro at a \<^verbatim>\<open>float\<close> argument: the \<^verbatim>\<open>int\<close> bounds are converted to
  \<^verbatim>\<open>float\<close> (both are binary32 numbers), the comparisons and the result are
  \<^verbatim>\<open>float\<close>.
\<close>

definition fMIN :: "cfloat \<Rightarrow> cfloat \<Rightarrow> cfloat" where
  "fMIN a b = (if flt a b then a else b)"

definition fMAX :: "cfloat \<Rightarrow> cfloat \<Rightarrow> cfloat" where
  "fMAX a b = (if flt b a then a else b)"

definition fCLAMP :: "cfloat \<Rightarrow> int \<Rightarrow> int \<Rightarrow> cfloat" where
  "fCLAMP val lo hi = fMAX (Fin (of_int lo)) (fMIN (Fin (of_int hi)) val)"

text \<open>
  \<^verbatim>\<open>parse_duration\<close>: a duration in hundredths of a second, \<open>-1\<close> for a token it
  rejects. The first \<^verbatim>\<open>return\<close> converts \<^verbatim>\<open>value\<close> to \<^verbatim>\<open>int\<close> and clamps the
  \<^verbatim>\<open>int\<close>; the other two clamp the \<^verbatim>\<open>float\<close> and convert the result, the function
  returning \<^verbatim>\<open>int\<close>.
\<close>

definition parse_duration :: "string \<Rightarrow> int option" where
  "parse_duration duration =
     (let (val, end) = strtof duration
      in if duration \<noteq> [] \<and> end = [] then
           (case float_to_int val of
              None \<Rightarrow> None
            | Some i \<Rightarrow> Some (CLAMP i (- 1) DURATION_MAX))
         else if end = ''s'' then float_to_int (fCLAMP (fmul_const val 100) (- 1) DURATION_MAX)
         else if end = ''ms'' then float_to_int (fCLAMP (fdiv_const val 10) (- 1) DURATION_MAX)
         else Some (- 1))"

section \<open>The command line\<close>

definition nl :: string where
  "nl = [CHR 0x0A]"

definition tab :: string where
  "tab = [CHR 0x09]"

definition quote :: string where
  "quote = [CHR 0x27]"

definition USAGE :: string where
  "USAGE = ''Usage: blink [OPTIONS] COMMAND [FIELD...]''"

definition USAGE_OPTIONS :: string where
  "USAGE_OPTIONS =
     ''Options:'' @ nl @
     tab @ ''-h'' @ tab @ ''print this help message'' @ nl @
     tab @ ''-c'' @ tab @ ''list defined colors''"

definition USAGE_FADE :: string where
  "USAGE_FADE =
     ''Usage: blink c COLOR FADE'' @ nl @
     ''Example: blink c red 50''"

definition USAGE_SET :: string where
  "USAGE_SET =
     ''Usage: blink n COLOR'' @ nl @
     ''Example: blink n 454545''"

definition USAGE_PLAY :: string where
  "USAGE_PLAY =
     ''Usage: blink p 0|1 POSITION'' @ nl @
     ''Example: blink p 0 0 # Pause'' @ nl @
     ''         blink p 1 4 # Play from 5th position''"

definition USAGE_PATT :: string where
  "USAGE_PATT =
     ''Usage: blink P COLOR FADE POSITION'' @ nl @
     ''Example: blink P green .5s 2 # 3rd pattern green with 500ms fade time''"

definition USAGE_SDOWN :: string where
  "USAGE_SDOWN =
     ''Usage: blink D 0|1 DURATION'' @ nl @
     ''Example: blink D 0 0 # stop server tickle mode'' @ nl @
     ''         blink D 1 2000ms # start server tickle mode with 2s time''"

text \<open>The table \<^verbatim>\<open>commands[]\<close>, without its sentinel.\<close>

record command =
  cmd :: char
  argc :: nat
  usage :: string
  desc :: string

definition COMMAND :: "char \<Rightarrow> nat \<Rightarrow> string \<Rightarrow> string \<Rightarrow> command" where
  "COMMAND c n u d = \<lparr>cmd = c, argc = n, usage = u, desc = d\<rparr>"

definition commands :: "command list" where
  "commands =
     [COMMAND (CHR ''c'') 2 USAGE_FADE ''Fade to RGB color'',
      COMMAND (CHR ''D'') 2 USAGE_SDOWN ''Serverdown tickle/off'',
      COMMAND (CHR ''n'') 1 USAGE_SET ''Set RGB color now'',
      COMMAND (CHR ''p'') 2 USAGE_PLAY ''Play/Pause'',
      COMMAND (CHR ''P'') 3 USAGE_PATT ''Set pattern entry'']"

text \<open>
  What a run does that can be seen from outside: the exit status, the bytes written to
  standard output and the text the macro \<^verbatim>\<open>error\<close> prints to standard error. The
  program is the build without \<^verbatim>\<open>DEBUG\<close>, where \<^verbatim>\<open>error(msg, ...)\<close> prints the
  message and a newline and \<^verbatim>\<open>debug\<close> does nothing.
\<close>

type_synonym byte = "8 word"

record outcome =
  status :: int
  out :: "byte list"
  err :: string

definition error_exit :: "string \<Rightarrow> outcome" where
  "error_exit msg = \<lparr>status = 1, out = [], err = msg @ nl\<rparr>"

definition printf_exit :: "string \<Rightarrow> outcome" where
  "printf_exit txt = \<lparr>status = 0, out = map of_char txt, err = []\<rparr>"

text \<open>The conversion \<^verbatim>\<open>%d\<close> of \<^verbatim>\<open>fprintf\<close>.\<close>

function show_nat :: "nat \<Rightarrow> string" where
  "show_nat n =
     (if n < 10 then [''0123456789'' ! n]
      else show_nat (n div 10) @ [''0123456789'' ! (n mod 10)])"
  by pat_completeness auto
termination
  by (relation "measure (\<lambda>n. n)") auto

declare show_nat.simps [simp del]

definition show_int :: "int \<Rightarrow> string" where
  "show_int i = (if i < 0 then CHR ''-'' # show_nat (nat (- i)) else show_nat (nat i))"

text \<open>
  The loop over \<^verbatim>\<open>getopt(argc, argv, "hc")\<close> returns from \<^verbatim>\<open>main\<close> at the first
  option it is given, so only the first call that finds an option counts. An option
  element is an argument of two characters or more that starts with \<^verbatim>\<open>-\<close>, other than
  \<^verbatim>\<open>--\<close>, which ends the options. With \<open>posix\<close> (the environment variable
  \<^verbatim>\<open>POSIXLY_CORRECT\<close> of the GNU C library, and every POSIX \<^verbatim>\<open>getopt\<close>) the first
  argument that is no option ends the options; without it the GNU \<^verbatim>\<open>getopt\<close> skips
  such arguments and moves them behind the options. \<open>Opt c\<close> is the first option
  character found, \<open>Operands xs\<close> the arguments from \<^verbatim>\<open>argv[optind]\<close> on when
  \<^verbatim>\<open>getopt\<close> returns \<open>-1\<close>.
\<close>

datatype getopt_result = Opt char | Operands "string list"

fun getopt :: "bool \<Rightarrow> string list \<Rightarrow> getopt_result" where
  "getopt posix [] = Operands []"
| "getopt posix (a # as) =
     (if a = ''--'' then Operands as
      else if 2 \<le> length a \<and> hd a = CHR ''-'' then Opt (a ! 1)
      else if posix then Operands (a # as)
      else (case getopt posix as of
              Opt c \<Rightarrow> Opt c
            | Operands xs \<Rightarrow> Operands (a # xs)))"

section \<open>\<^verbatim>\<open>main\<close>\<close>

definition MSG_SIZE :: nat where
  "MSG_SIZE = 9"

text \<open>
  The "quick check of commands syntax": the loop over the table returns from \<^verbatim>\<open>main\<close>
  at an entry of the command letter whose \<^verbatim>\<open>argc\<close> is not the number of remaining
  arguments.
\<close>

fun check_syntax :: "command list \<Rightarrow> char \<Rightarrow> nat \<Rightarrow> outcome option" where
  "check_syntax [] c argr = None"
| "check_syntax (e # es) c argr =
     (if c = cmd e \<and> argr \<noteq> argc e then Some (error_exit (desc e @ nl @ usage e))
      else check_syntax es c argr)"

text \<open>
  The cases of the \<^verbatim>\<open>switch\<close>. \<open>args\<close> is \<^verbatim>\<open>argv\<close> from \<^verbatim>\<open>optind\<close> on, after the
  command letter: \<^verbatim>\<open>argv[optind + k]\<close> is \<open>args ! k\<close>. A case ends in \<open>Inl\<close> when it
  returns from \<^verbatim>\<open>main\<close> and in \<open>Inr\<close> with the buffer when it reaches \<^verbatim>\<open>break\<close>;
  \<open>None\<close> is undefined behaviour in a library call. Case \<^verbatim>\<open>'P'\<close> falls through to
  case \<^verbatim>\<open>'c'\<close>, which falls through to case \<^verbatim>\<open>'n'\<close>.
\<close>

definition case_n :: "byte list \<Rightarrow> string list \<Rightarrow> (outcome + byte list) option" where
  "case_n buf args =
     (let rgb = parse_color (args ! 0)
      in Some (Inr (buf[2 := word_of_int (R rgb),
                        3 := word_of_int (G rgb),
                        4 := word_of_int (B rgb)])))"

definition case_c :: "byte list \<Rightarrow> string list \<Rightarrow> (outcome + byte list) option" where
  "case_c buf args =
     (case parse_duration (args ! 1) of
        None \<Rightarrow> None
      | Some duration \<Rightarrow>
          if duration < 0 then Some (Inl (error_exit ''invalid duration''))
          else case_n (buf[5 := word_of_int (drop_bit 8 duration),
                           6 := word_of_int (duration AND 0xff)]) args)"

definition case_P :: "byte list \<Rightarrow> string list \<Rightarrow> (outcome + byte list) option" where
  "case_P buf args =
     (case atoi (args ! 2) of
        None \<Rightarrow> None
      | Some position \<Rightarrow>
          if position < 0 \<or> position > 11
          then Some (Inl (error_exit (''invalid position '' @ show_int position)))
          else case_c (buf[7 := word_of_int position]) args)"

definition case_p :: "byte list \<Rightarrow> string list \<Rightarrow> (outcome + byte list) option" where
  "case_p buf args =
     (case atoi (args ! 0) of
        None \<Rightarrow> None
      | Some play \<Rightarrow>
          (case atoi (args ! 1) of
             None \<Rightarrow> None
           | Some position \<Rightarrow>
               Some (Inr (buf[2 := (if play \<noteq> 0 then 1 else 0),
                              3 := word_of_int (CLAMP position 0 11)]))))"

definition case_D :: "byte list \<Rightarrow> string list \<Rightarrow> (outcome + byte list) option" where
  "case_D buf args =
     (case atoi (args ! 0) of
        None \<Rightarrow> None
      | Some play \<Rightarrow>
          (case parse_duration (args ! 1) of
             None \<Rightarrow> None
           | Some duration \<Rightarrow>
               if duration < 0 then Some (Inl (error_exit ''invalid duration''))
               else Some (Inr (buf[2 := (if play \<noteq> 0 then 1 else 0),
                                   3 := word_of_int (drop_bit 8 duration),
                                   4 := word_of_int (duration AND 0xff)]))))"

definition switch :: "char \<Rightarrow> byte list \<Rightarrow> string list \<Rightarrow> (outcome + byte list) option" where
  "switch c buf args =
     (if c = CHR ''P'' then case_P buf args
      else if c = CHR ''c'' then case_c buf args
      else if c = CHR ''n'' then case_n buf args
      else if c = CHR ''p'' then case_p buf args
      else if c = CHR ''D'' then case_D buf args
      else Some (Inl (error_exit
             (''unknown command '' @ quote @ [c] @ quote @ ''. Try '' @ quote @ ''blink -h'' @ quote
              @ '' for help.''))))"

text \<open>
  The last statement: \<^verbatim>\<open>write(STDOUT_FILENO, buf, MSG_SIZE)\<close> returns \<open>wret\<close>, the
  number of bytes it has written or \<open>-1\<close>, and the status is 0 when that is
  \<^verbatim>\<open>MSG_SIZE\<close>.
\<close>

definition write_buf :: "byte list \<Rightarrow> int \<Rightarrow> outcome" where
  "write_buf buf wret =
     \<lparr>status = (if wret \<noteq> int MSG_SIZE then 1 else 0), out = take (nat wret) buf, err = []\<rparr>"

text \<open>
  \<^verbatim>\<open>main\<close> from the test of \<^verbatim>\<open>argc - optind\<close> on. \<open>ops\<close> is \<^verbatim>\<open>argv\<close> from
  \<^verbatim>\<open>optind\<close> on, as the option loop leaves it.
\<close>

definition main_command :: "string list \<Rightarrow> int \<Rightarrow> outcome option" where
  "main_command ops wret =
     (case ops of
        [] \<Rightarrow> Some (error_exit (''Put colors! Try '' @ quote @ ''blink -h'' @ quote @ '' for more information.''))
      | a # args \<Rightarrow>
          if length a \<noteq> 1
          then Some (error_exit (''Put colors! Try '' @ quote @ ''blink -h'' @ quote @ '' for more information.''))
          else
            (let argr = length ops - 1;
                 c = hd a;
                 buf = [1, 0, 0, 0, 0, 0, 0, 0, 0][1 := of_char c]
             in case check_syntax commands c argr of
                  Some e \<Rightarrow> Some e
                | None \<Rightarrow>
                    (case switch c buf args of
                       None \<Rightarrow> None
                     | Some (Inl e) \<Rightarrow> Some e
                     | Some (Inr b) \<Rightarrow> Some (write_buf b wret))))"

text \<open>
  \<^verbatim>\<open>main\<close>, on \<^verbatim>\<open>argv[1]\<close> to \<^verbatim>\<open>argv[argc - 1]\<close>. The diagnostic that \<^verbatim>\<open>getopt\<close>
  prints by itself for an unknown option is not part of \<open>err\<close>.
\<close>

definition main :: "bool \<Rightarrow> string list \<Rightarrow> int \<Rightarrow> outcome option" where
  "main posix argv wret =
     (case getopt posix argv of
        Opt c \<Rightarrow>
          if c = CHR ''h'' then
            Some (printf_exit
              (USAGE @ nl @ USAGE_OPTIONS @ nl @ ''Commands:'' @ nl @
               concat (map (\<lambda>e. tab @ [cmd e] @ tab @ desc e @ nl) commands)))
          else if c = CHR ''c'' then
            Some (printf_exit (concat (map (\<lambda>(name, v). name @ nl) colors)))
          else Some (error_exit USAGE_OPTIONS)
      | Operands ops \<Rightarrow> main_command ops wret)"

section \<open>Evaluation\<close>

lemmas char_defs =
  isspace_def isdigit_def isxdigit_def digit_val_def digits_val_def opt_sign_def hex_prefix_def
  tolower_def isnchar_def

lemmas strtof_defs =
  mantissa_def exponent_def dec_float_def hex_float_def nan_tail_def float_subject_def strtof_def
  fneg_def scale_def

lemmas duration_defs =
  DURATION_MAX_def MIN_int_def MAX_int_def CLAMP_def fMIN_def fMAX_def fCLAMP_def
  fmul_const_def fdiv_const_def float_to_int_def trunc_def INT_MIN_def INT_MAX_def

lemmas color_defs =
  parse_color_def colors_def strtoul16_def ULONG_MAX_def R_def G_def B_def

lemmas usage_defs =
  nl_def tab_def quote_def USAGE_def USAGE_OPTIONS_def USAGE_FADE_def USAGE_SET_def
  USAGE_PLAY_def USAGE_PATT_def USAGE_SDOWN_def

lemmas main_defs =
  main_def main_command_def switch_def case_P_def case_c_def case_n_def case_p_def case_D_def
  commands_def COMMAND_def error_exit_def printf_exit_def write_buf_def MSG_SIZE_def atoi_def

text \<open>Binary32 holds every integer below \<open>2 ^ 24\<close> exactly.\<close>

lemma round_even_of_int: "round_even (of_int k) = k"
  by (simp add: round_even_def)

lemma scale_nonpos: "q \<le> 0 \<Longrightarrow> scale 2 q = 1 / 2 ^ nat (- q)"
  by (cases "q = 0") (simp_all add: scale_def)

lemma ilog2_of_nat_le:
  assumes "0 < m" "m < 2 ^ 24"
  shows "ilog2 (of_nat m) \<le> 23"
proof -
  have "floorlog 2 m \<le> 24"
    using assms by (intro floorlog_leI) simp_all
  moreover have "(1::rat) \<le> of_nat m"
    using assms by simp
  ultimately show ?thesis
    by (simp add: ilog2_def)
qed

lemma round_f32_of_nat:
  assumes "0 < m" "m < 2 ^ 24"
  shows "round_f32 (of_nat m) = Fin (of_nat m)"
proof -
  define q where "q = max (ilog2 (of_nat m) - 23) (- 149)"
  have q: "q \<le> 0"
    using ilog2_of_nat_le [OF assms] by (simp add: q_def)
  have s: "scale 2 q = 1 / 2 ^ nat (- q)"
    by (rule scale_nonpos [OF q])
  have "(of_nat m :: rat) / scale 2 q = of_int (int m * 2 ^ nat (- q))"
    by (simp add: s)
  then have r: "rat_of_int (round_even (of_nat m / scale 2 q)) * scale 2 q = of_nat m"
    by (simp only: round_even_of_int) (simp add: s)
  have "(of_nat m :: rat) < 2 ^ 128"
  proof -
    have "(of_nat m :: rat) < of_nat (2 ^ 24)"
      using assms(2) by (simp only: of_nat_less_iff)
    also have "\<dots> \<le> 2 ^ 128" by simp
    finally show ?thesis .
  qed
  then show ?thesis
    using assms(1) r unfolding round_f32_def Let_def q_def [symmetric]
    by (simp add: q_def [symmetric])
qed

lemma round_f32_0: "round_f32 0 = Fin 0"
  by (simp add: round_f32_def)

lemma round_f32_values:
  "round_f32 2 = Fin 2"
  "round_f32 5 = Fin 5"
  "round_f32 200 = Fin 200"
  "round_f32 10000 = Fin 10000"
  "round_f32 100000 = Fin 100000"
  "round_f32 1000000 = Fin 1000000"
  using round_f32_of_nat [of 2] round_f32_of_nat [of 5] round_f32_of_nat [of 200]
    round_f32_of_nat [of 10000] round_f32_of_nat [of 100000] round_f32_of_nat [of 1000000]
  by simp_all

lemma strtof_values:
  "strtof ''s'' = (Fin 0, ''s'')"
  "strtof ''ms'' = (Fin 0, ''ms'')"
  "strtof ''abc'' = (Fin 0, ''abc'')"
  "strtof ''2s'' = (Fin 2, ''s'')"
  "strtof ''-5'' = (Fin (- 5), [])"
  "strtof ''100000ms'' = (Fin 100000, ''ms'')"
  "strtof ''1000000ms'' = (Fin 1000000, ''ms'')"
  by (simp_all add: char_defs strtof_defs round_f32_values)

lemma parse_duration_values:
  "parse_duration ''s'' = Some 0"
  "parse_duration ''ms'' = Some 0"
  "parse_duration ''abc'' = Some (- 1)"
  "parse_duration ''2s'' = Some 200"
  "parse_duration ''-5'' = Some (- 1)"
  "parse_duration ''100000ms'' = Some 10000"
  "parse_duration ''1000000ms'' = Some 65535"
  by (simp_all add: parse_duration_def strtof_values duration_defs round_f32_values round_f32_0)

lemma atoi_values:
  "atoi ''0'' = Some 0"
  "atoi ''1'' = Some 1"
  "atoi ''2'' = Some 2"
  "atoi ''12'' = Some 12"
  "atoi ''abc'' = Some 0"
  by (simp_all add: atoi_def char_defs INT_MIN_def INT_MAX_def)

lemma parse_color_values:
  "parse_color ''blue'' = 0x0000FF"
  "parse_color ''cyan'' = 0x00FFFF"
  "parse_color ''green'' = 0x00FF00"
  "parse_color ''purple'' = 0xFF00FF"
  "parse_color ''red'' = 0xFF0000"
  "parse_color ''white'' = 0xFFFFFF"
  "parse_color ''yellow'' = 0xFFFF00"
  "parse_color ''zzz'' = - 1"
  "parse_color ''0xFF'' = 0xFF"
  by (simp_all add: color_defs char_defs)

lemma getopt_no_option [simp]:
  "\<forall>a \<in> set argv. a = [] \<or> hd a \<noteq> CHR ''-'' \<Longrightarrow> getopt posix argv = Operands argv"
  by (induction argv) auto

lemma main_operands:
  "getopt posix argv = Operands ops \<Longrightarrow> main posix argv wret = main_command ops wret"
  by (simp add: main_def)

text \<open>The loop over the table, unrolled.\<close>

lemma check_syntax_commands:
  "check_syntax commands c n =
     (if c = CHR ''c'' \<and> n \<noteq> 2 then Some (error_exit (''Fade to RGB color'' @ nl @ USAGE_FADE))
      else if c = CHR ''D'' \<and> n \<noteq> 2 then Some (error_exit (''Serverdown tickle/off'' @ nl @ USAGE_SDOWN))
      else if c = CHR ''n'' \<and> n \<noteq> 1 then Some (error_exit (''Set RGB color now'' @ nl @ USAGE_SET))
      else if c = CHR ''p'' \<and> n \<noteq> 2 then Some (error_exit (''Play/Pause'' @ nl @ USAGE_PLAY))
      else if c = CHR ''P'' \<and> n \<noteq> 3 then Some (error_exit (''Set pattern entry'' @ nl @ USAGE_PATT))
      else None)"
  by (simp add: commands_def COMMAND_def)

lemma atoi_no_digit:
  "takeWhile isdigit (snd (opt_sign (dropWhile isspace s))) = [] \<Longrightarrow> atoi s = Some 0"
  by (cases "opt_sign (dropWhile isspace s)")
    (simp add: atoi_def digits_val_def INT_MIN_def INT_MAX_def Let_def)

lemma show_int_values: "show_int 12 = ''12''" "show_int (- 3) = ''-3''"
  by (simp_all add: show_int_def show_nat.simps)

text \<open>Every early return of \<^verbatim>\<open>main\<close> after the options has status 1.\<close>

lemma check_syntax_status: "check_syntax cs c n = Some e \<Longrightarrow> status e = 1"
  by (induction cs) (auto simp: error_exit_def split: if_splits)

lemma switch_Inl_status: "switch c buf args = Some (Inl e) \<Longrightarrow> status e = 1"
  by (auto simp: switch_def case_P_def case_c_def case_n_def case_p_def case_D_def error_exit_def
      Let_def split: if_splits option.splits)

text \<open>No case of the \<^verbatim>\<open>switch\<close> stores into \<^verbatim>\<open>buf[0]\<close>, \<^verbatim>\<open>buf[1]\<close> or \<^verbatim>\<open>buf[8]\<close>.\<close>

lemma switch_Inr_frame:
  "switch c buf args = Some (Inr b) \<Longrightarrow>
   length b = length buf \<and> b ! 0 = buf ! 0 \<and> b ! 1 = buf ! 1 \<and> b ! 8 = buf ! 8"
  by (auto simp: switch_def case_P_def case_c_def case_n_def case_p_def case_D_def
      Let_def split: if_splits option.splits)

section \<open>Facts about \<^verbatim>\<open>strtoul\<close> and \<^verbatim>\<open>parse_color\<close>\<close>


lemma digit_val_less: "digit_val c < 16"
  by (auto simp: digit_val_def isdigit_def)

lemma foldl_digits_less:
  "foldl (\<lambda>a c. 16 * a + digit_val c) a s < (a + 1) * 16 ^ length s"
proof (induction s arbitrary: a)
  case Nil
  show ?case by simp
next
  case (Cons c s)
  have "foldl (\<lambda>a c. 16 * a + digit_val c) (16 * a + digit_val c) s
          < (16 * a + digit_val c + 1) * 16 ^ length s"
    by (rule Cons.IH)
  also have "\<dots> \<le> (16 * a + 16) * 16 ^ length s"
    using digit_val_less [of c] by (intro mult_right_mono) simp_all
  finally show ?case by (simp add: algebra_simps)
qed

lemma digits_val_less: "digits_val 16 s < 16 ^ length s"
  using foldl_digits_less [of 0 s] by (simp add: digits_val_def)

lemma lookup_color_None_iff: "lookup_color cs s = None \<longleftrightarrow> s \<notin> fst ` set cs"
  by (induction cs) (auto split: if_splits)

lemma color_names:
  "fst ` set colors = {''blue'', ''cyan'', ''green'', ''purple'', ''red'', ''white'', ''yellow''}"
  by (simp add: colors_def)

lemma color_name_chars:
  assumes "s \<in> fst ` set colors"
  shows "\<exists>c \<in> set s. c \<in> set ''lygprw''"
  using assms unfolding color_names by (elim insertE emptyE) simp_all

lemma isxdigit_chars:
  "isxdigit c \<Longrightarrow> \<not> isspace c \<and> c \<noteq> CHR ''-'' \<and> c \<noteq> CHR ''+'' \<and> c \<noteq> CHR ''x'' \<and> c \<noteq> CHR ''X''
     \<and> c \<notin> set ''lygprw''"
  by (auto simp: isxdigit_def isspace_def)

lemma hex_prefix_xdigits:
  assumes "\<forall>c \<in> set s. isxdigit c"
  shows "hex_prefix s = None"
proof (cases s)
  case Nil
  then show ?thesis by (simp add: hex_prefix_def)
next
  case (Cons z t)
  show ?thesis
  proof (cases t)
    case Nil
    with Cons show ?thesis by (simp add: hex_prefix_def)
  next
    case (Cons x u)
    have "isxdigit x"
      using assms \<open>s = z # t\<close> Cons by simp
    then have "x \<noteq> CHR ''x'' \<and> x \<noteq> CHR ''X''"
      using isxdigit_chars by blast
    then show ?thesis
      using \<open>s = z # t\<close> Cons by (cases u) (simp_all add: hex_prefix_def)
  qed
qed

lemma opt_sign_xdigits:
  assumes "s \<noteq> []" "isxdigit (hd s)"
  shows "opt_sign s = (False, s)"
proof -
  obtain c r where s: "s = c # r" using assms(1) by (cases s) auto
  have "c \<noteq> CHR ''-'' \<and> c \<noteq> CHR ''+''"
    using isxdigit_chars [of c] assms(2) s by simp
  then show ?thesis by (simp add: opt_sign_def s)
qed

lemma dropWhile_isspace_xdigits:
  assumes "s \<noteq> []" "isxdigit (hd s)"
  shows "dropWhile isspace s = s"
proof -
  obtain c r where s: "s = c # r" using assms(1) by (cases s) auto
  have "\<not> isspace c"
    using isxdigit_chars [of c] assms(2) s by simp
  then show ?thesis by (simp add: s)
qed

lemma strtoul16_xdigits:
  assumes "s \<noteq> []" "\<forall>c \<in> set s. isxdigit c"
  shows "strtoul16 s =
    (if ULONG_MAX < digits_val 16 s then ULONG_MAX else digits_val 16 s, [])"
proof -
  have h: "isxdigit (hd s)" using assms by (cases s) auto
  have t: "takeWhile isxdigit s = s" "dropWhile isxdigit s = []"
    using assms(2) by simp_all
  show ?thesis
    using assms(1)
    by (simp add: strtoul16_def dropWhile_isspace_xdigits [OF assms(1) h]
        opt_sign_xdigits [OF assms(1) h] hex_prefix_xdigits [OF assms(2)] t)
qed

lemma xdigits_not_color:
  assumes "\<forall>c \<in> set s. isxdigit c"
  shows "lookup_color colors s = None"
proof -
  have "s \<notin> fst ` set colors"
  proof
    assume "s \<in> fst ` set colors"
    then obtain c where "c \<in> set s" "c \<in> set ''lygprw''"
      using color_name_chars by blast
    moreover have "c \<notin> set ''lygprw''"
      using assms \<open>c \<in> set s\<close> isxdigit_chars by blast
    ultimately show False by blast
  qed
  then show ?thesis by (simp add: lookup_color_None_iff)
qed

lemma parse_color_xdigits:
  assumes "s \<noteq> []" "\<forall>c \<in> set s. isxdigit c"
  shows "parse_color s = (if 0xFFFFFF < digits_val 16 s then - 1 else int (digits_val 16 s))"
  using assms(1)
  by (simp add: parse_color_def xdigits_not_color [OF assms(2)] strtoul16_xdigits [OF assms]
      ULONG_MAX_def)

lemma parse_color_short_xdigits:
  assumes "s \<noteq> []" "length s \<le> 6" "\<forall>c \<in> set s. isxdigit c"
  shows "parse_color s = int (digits_val 16 s)"
proof -
  have "digits_val 16 s < 16 ^ length s"
    by (rule digits_val_less)
  also have "\<dots> \<le> (16::nat) ^ 6"
    using assms(2) by (intro power_increasing) simp_all
  finally have "digits_val 16 s \<le> 0xFFFFFF" by simp
  then show ?thesis
    using parse_color_xdigits [OF assms(1,3)] by simp
qed

lemma last_dropWhile: "dropWhile P s \<noteq> [] \<Longrightarrow> last (dropWhile P s) = last s"
  by (induction s) (auto split: if_splits)

lemma opt_sign_last: "opt_sign d = (neg, u) \<Longrightarrow> u \<noteq> [] \<Longrightarrow> d \<noteq> [] \<and> last u = last d"
  by (cases d) (auto simp: opt_sign_def split: if_splits)

lemma hex_prefix_last: "hex_prefix u = Some w \<Longrightarrow> w \<noteq> [] \<and> u \<noteq> [] \<and> last w = last u"
  by (auto simp: hex_prefix_def split: list.splits if_splits)

lemma strtoul16_unfold:
  assumes "opt_sign (dropWhile isspace s) = (neg, u)"
    and "v = (case hex_prefix u of Some w \<Rightarrow> w | None \<Rightarrow> u)"
  shows "strtoul16 s =
    (if takeWhile isxdigit v = [] then (0, s)
     else (if ULONG_MAX < digits_val 16 (takeWhile isxdigit v) then ULONG_MAX
           else if neg then (2 ^ 64 - digits_val 16 (takeWhile isxdigit v)) mod 2 ^ 64
           else digits_val 16 (takeWhile isxdigit v),
           dropWhile isxdigit v))"
  using assms by (simp add: strtoul16_def Let_def)

lemma strtoul16_rest:
  assumes "s \<noteq> []" "\<not> isxdigit (last s)"
  shows "snd (strtoul16 s) \<noteq> []"
proof -
  obtain neg u where o: "opt_sign (dropWhile isspace s) = (neg, u)"
    by (cases "opt_sign (dropWhile isspace s)")
  define v where "v = (case hex_prefix u of Some w \<Rightarrow> w | None \<Rightarrow> u)"
  show ?thesis
  proof (cases "takeWhile isxdigit v = []")
    case True
    then show ?thesis
      using assms(1) by (simp add: strtoul16_unfold [OF o v_def])
  next
    case False
    then have v: "v \<noteq> []" by auto
    have vu: "u \<noteq> [] \<and> last v = last u"
      using v hex_prefix_last [of u] by (auto simp: v_def split: option.splits)
    then have "dropWhile isspace s \<noteq> [] \<and> last u = last (dropWhile isspace s)"
      using opt_sign_last [OF o] by simp
    then have "last v = last s"
      using vu last_dropWhile [of isspace s] by simp
    then have "\<not> isxdigit (last v)"
      using assms(2) by simp
    moreover have "last v \<in> set v"
      using v by simp
    ultimately have "dropWhile isxdigit v \<noteq> []"
      by (auto simp: dropWhile_eq_Nil_conv)
    then show ?thesis
      using False by (simp add: strtoul16_unfold [OF o v_def])
  qed
qed

lemma parse_color_fails:
  assumes "s \<notin> fst ` set colors"
    and "0xFFFFFF < fst (strtoul16 s) \<or> snd (strtoul16 s) \<noteq> [] \<or> s = []"
  shows "parse_color s = - 1"
proof -
  have "lookup_color colors s = None"
    using assms(1) by (simp add: lookup_color_None_iff)
  then show ?thesis
    using assms(2) by (cases "strtoul16 s") (auto simp: parse_color_def)
qed

lemma isspace_chars: "isspace c \<Longrightarrow> c \<notin> set ''lygprw''"
  by (auto simp: isspace_def)

lemma strtoul16_token:
  assumes ws: "\<forall>c \<in> set ws. isspace c"
    and sg: "sg \<in> {[], ''+'', ''-''}"
    and px: "px \<in> {[], ''0x'', ''0X''}"
    and ds: "ds \<noteq> []" "\<forall>c \<in> set ds. isxdigit c"
  shows "strtoul16 (ws @ sg @ px @ ds) =
    (if ULONG_MAX < digits_val 16 ds then ULONG_MAX
     else if sg = ''-'' then (2 ^ 64 - digits_val 16 ds) mod 2 ^ 64
     else digits_val 16 ds, [])"
proof -
  obtain h r where hr: "ds = h # r" using ds(1) by (cases ds) auto
  have h: "isxdigit h" using ds(2) hr by simp
  have hc: "\<not> isspace h" "h \<noteq> CHR ''-''" "h \<noteq> CHR ''+''"
    using isxdigit_chars [OF h] by simp_all
  have "dropWhile isspace (sg @ px @ ds) = sg @ px @ ds"
    using sg px hc by (auto simp: hr isspace_def)
  then have d: "dropWhile isspace (ws @ sg @ px @ ds) = sg @ px @ ds"
    using ws by (simp add: dropWhile_append2)
  have o: "opt_sign (dropWhile isspace (ws @ sg @ px @ ds)) = (sg = ''-'', px @ ds)"
    unfolding d using sg px hc by (auto simp: opt_sign_def hr)
  have v: "ds = (case hex_prefix (px @ ds) of Some w \<Rightarrow> w | None \<Rightarrow> px @ ds)"
    using px h hex_prefix_xdigits [OF ds(2)] by (auto simp: hex_prefix_def hr)
  have t: "takeWhile isxdigit ds = ds" "dropWhile isxdigit ds = []"
    using ds(2) by simp_all
  show ?thesis
    using ds(1) by (simp add: strtoul16_unfold [OF o v] t)
qed

lemma token_not_color:
  assumes ws: "\<forall>c \<in> set ws. isspace c"
    and sg: "sg \<in> {[], ''+'', ''-''}"
    and px: "px \<in> {[], ''0x'', ''0X''}"
    and ds: "\<forall>c \<in> set ds. isxdigit c"
  shows "ws @ sg @ px @ ds \<notin> fst ` set colors"
proof
  assume "ws @ sg @ px @ ds \<in> fst ` set colors"
  then obtain c where c: "c \<in> set (ws @ sg @ px @ ds)" "c \<in> set ''lygprw''"
    using color_name_chars by blast
  have "c \<notin> set ws" using c(2) ws isspace_chars by blast
  moreover have "c \<notin> set ds" using c(2) ds isxdigit_chars by blast
  moreover have "c \<notin> set sg" using c(2) sg by auto
  moreover have "c \<notin> set px" using c(2) px by auto
  ultimately show False using c(1) by simp
qed

lemma and_255: "(x::int) AND 255 = x mod 256"
proof -
  have "x AND mask 8 = take_bit 8 x"
    by (simp only: take_bit_eq_mask)
  then show ?thesis
    by (simp add: mask_eq_exp_minus_1 take_bit_eq_mod)
qed

lemma channels_div_mod:
  "R rgb = (rgb div 65536) mod 256" "G rgb = (rgb div 256) mod 256" "B rgb = rgb mod 256"
proof -
  have "R rgb = drop_bit 16 rgb AND 255"
    by (simp add: R_def)
  then show "R rgb = (rgb div 65536) mod 256"
    by (simp only: and_255 drop_bit_eq_div) simp
  have "G rgb = drop_bit 8 rgb AND 255"
    by (simp add: G_def)
  then show "G rgb = (rgb div 256) mod 256"
    by (simp only: and_255 drop_bit_eq_div) simp
  show "B rgb = rgb mod 256"
    by (simp add: B_def and_255)
qed

lemma channels_roundtrip:
  assumes "0 \<le> rgb" "rgb < 2 ^ 24"
  shows "R rgb * 65536 + G rgb * 256 + B rgb = rgb"
proof -
  define q where "q = rgb div 256"
  define a where "a = q div 256"
  define b where "b = q mod 256"
  define c where "c = rgb mod 256"
  have 1: "rgb div 65536 = a"
    using zdiv_zmult2_eq [of 256 rgb 256] by (simp add: q_def a_def)
  have "0 \<le> rgb div 65536" "rgb div 65536 < 256"
    using assms by simp_all
  then have 3: "a mod 256 = a"
    unfolding 1 by simp
  have 4: "256 * a + b = q"
    by (simp add: a_def b_def)
  have 5: "256 * q + c = rgb"
    by (simp add: q_def c_def)
  have "R rgb * 65536 + G rgb * 256 + B rgb = a * 65536 + b * 256 + c"
    unfolding channels_div_mod 1 3 by (simp add: q_def b_def c_def)
  also have "\<dots> = rgb"
    using 4 5 by linarith
  finally show ?thesis .
qed

lemma channels_range:
  "0 \<le> R rgb \<and> R rgb \<le> 255 \<and> 0 \<le> G rgb \<and> G rgb \<le> 255 \<and> 0 \<le> B rgb \<and> B rgb \<le> 255"
proof -
  have "0 \<le> x mod 256 \<and> x mod 256 \<le> 255" for x :: int
    using pos_mod_bound [of 256 x] by simp
  then show ?thesis
    unfolding channels_div_mod by blast
qed

lemma registry_values:
  assumes "(name, v) \<in> set colors"
  shows "parse_color name = int v \<and> v \<le> 0xFFFFFF"
  using assms by (auto simp: colors_def parse_color_values)

lemma parse_color_more_values:
  "parse_color ''Red'' = - 1"
  "parse_color ''0000000FF'' = 0xFF"
  "parse_color '' +0Xff'' = 0xFF"
  "parse_color ''-0'' = 0"
  "parse_color ''ff00ff'' = 0xFF00FF"
  "parse_color ''12g'' = - 1"
  "parse_color ''1000000'' = - 1"
  "parse_color [] = - 1"
  by (simp_all add: color_defs char_defs)

section \<open>Facts about \<^verbatim>\<open>parse_duration\<close>\<close>

text \<open>
  What \<^verbatim>\<open>parse_duration\<close> returns, by the rest that \<^verbatim>\<open>strtof\<close> leaves: without a
  unit the truncated value, clamped; with a unit the binary32 product or quotient, clamped
  and then truncated by the conversion to \<^verbatim>\<open>int\<close>; \<open>-1\<close> for any other rest and for a
  token without a number, the bare units \<^verbatim>\<open>s\<close> and \<^verbatim>\<open>ms\<close> apart.
\<close>


lemma trunc_bounds:
  assumes "- 1 \<le> x" "x \<le> 65535"
  shows "- 1 \<le> trunc x \<and> trunc x \<le> 65535"
proof (cases "0 \<le> x")
  case True
  have "- 1 \<le> \<lfloor>x\<rfloor>"
    using True by (simp add: le_floor_iff)
  moreover have "\<lfloor>x\<rfloor> \<le> 65535"
    using assms(2) by (simp add: floor_le_iff)
  ultimately show ?thesis
    unfolding trunc_def using True by (simp only: if_True simp_thms)
next
  case False
  have "\<lceil>x\<rceil> \<le> 65535"
    using False by (simp add: ceiling_le_iff)
  moreover have "- 1 \<le> \<lceil>x\<rceil>"
    using assms(1) by (simp add: le_ceiling_iff)
  ultimately show ?thesis
    unfolding trunc_def using False by (simp only: if_False simp_thms)
qed

lemma float_to_int_fCLAMP:
  "float_to_int (fCLAMP (Fin p) (- 1) DURATION_MAX) = Some (trunc (max (- 1) (min 65535 p)))"
proof -
  have c: "fCLAMP (Fin p) (- 1) DURATION_MAX = Fin (max (- 1) (min 65535 p))"
    by (simp add: fCLAMP_def fMAX_def fMIN_def DURATION_MAX_def max_def min_def)
  have "- 1 \<le> max (- 1) (min 65535 p)" "max (- 1) (min 65535 p) \<le> 65535"
    by simp_all
  then have "- 1 \<le> trunc (max (- 1) (min 65535 p)) \<and> trunc (max (- 1) (min 65535 p)) \<le> 65535"
    by (rule trunc_bounds)
  then show ?thesis
    unfolding c by (simp add: float_to_int_def INT_MIN_def INT_MAX_def)
qed

lemma parse_duration_no_unit:
  assumes "strtof tok = (Fin r, [])" "tok \<noteq> []" "INT_MIN \<le> trunc r" "trunc r \<le> INT_MAX"
  shows "parse_duration tok = Some (max (- 1) (min 65535 (trunc r)))"
  using assms
  by (simp add: parse_duration_def float_to_int_def CLAMP_def MAX_int_def MIN_int_def
      DURATION_MAX_def max_def min_def)

lemma parse_duration_s:
  assumes "strtof tok = (Fin r, ''s'')" "round_f32 (r * 100) = Fin p"
  shows "parse_duration tok = Some (trunc (max (- 1) (min 65535 p)))"
  using assms by (simp add: parse_duration_def fmul_const_def float_to_int_fCLAMP)

lemma parse_duration_ms:
  assumes "strtof tok = (Fin r, ''ms'')" "round_f32 (r / 10) = Fin p"
  shows "parse_duration tok = Some (trunc (max (- 1) (min 65535 p)))"
  using assms by (simp add: parse_duration_def fdiv_const_def float_to_int_fCLAMP)

lemma parse_duration_other_suffix:
  assumes "strtof tok = (v, rest)" "rest \<noteq> []" "rest \<noteq> ''s''" "rest \<noteq> ''ms''"
  shows "parse_duration tok = Some (- 1)"
  using assms by (simp add: parse_duration_def)

lemma parse_duration_no_number:
  assumes "float_subject (snd (opt_sign (dropWhile isspace tok))) = None"
    and "tok \<noteq> ''s''" "tok \<noteq> ''ms''"
  shows "parse_duration tok = Some (- 1)"
proof -
  have "strtof tok = (Fin 0, tok)"
    using assms(1) by (cases "opt_sign (dropWhile isspace tok)") (simp add: strtof_def)
  then show ?thesis
    using assms(2,3) by (simp add: parse_duration_def)
qed

section \<open>The claims\<close>

text \<open>
  C1. The claim: a color token that \<^verbatim>\<open>parse_color\<close> rejects makes the commands
  \<^verbatim>\<open>n\<close>, \<^verbatim>\<open>c\<close> and \<^verbatim>\<open>P\<close> fail with status 1 and no report. The code does not
  test the result of \<^verbatim>\<open>parse_color\<close>: for \<^verbatim>\<open>blink n zzz\<close> the sentinel \<open>-1\<close>
  is split into the channels 255, 255, 255, the report is written and the status is 0;
  the same happens in the commands \<^verbatim>\<open>c\<close> and \<^verbatim>\<open>P\<close>.
\<close>

theorem invalid_color_is_written:
  "parse_color ''zzz'' = - 1 \<and>
   main posix [''n'', ''zzz''] 9 =
     Some \<lparr>status = 0, out = [1, 110, 255, 255, 255, 0, 0, 0, 0], err = []\<rparr> \<and>
   main posix [''c'', ''zzz'', ''2s''] 9 =
     Some \<lparr>status = 0, out = [1, 99, 255, 255, 255, 0, 200, 0, 0], err = []\<rparr> \<and>
   main posix [''P'', ''zzz'', ''2s'', ''2''] 9 =
     Some \<lparr>status = 0, out = [1, 80, 255, 255, 255, 0, 200, 2, 0], err = []\<rparr>"
  by (simp add: main_def main_command_def check_syntax_commands switch_def case_P_def case_c_def
      case_n_def Let_def write_buf_def MSG_SIZE_def parse_duration_values atoi_values
      parse_color_values R_def G_def B_def)

text \<open>
  C2. The claim: \<^verbatim>\<open>parse_duration("100000ms")\<close> is 65535. It is not: 100000 ms are
  10000 hundredths of a second, which the clamp leaves as they are.
\<close>

theorem parse_duration_100000ms_not_ceiling:
  "parse_duration ''100000ms'' \<noteq> Some 65535"
  by (simp add: parse_duration_values)

text \<open>
  C2, amended: \<^verbatim>\<open>parse_duration("100000ms")\<close> is 10000. A token with the unit
  \<^verbatim>\<open>ms\<close> is clamped to the ceiling 65535 when the quotient of its value by 10, computed
  in single precision, is 65535 or more.
\<close>

theorem parse_duration_100000ms:
  "parse_duration ''100000ms'' = Some 10000 \<and>
   (strtof tok = (Fin r, ''ms'') \<and> round_f32 (r / 10) = Fin p \<and> 65535 \<le> p \<longrightarrow>
      parse_duration tok = Some 65535)"
proof (intro conjI impI)
  show "parse_duration ''100000ms'' = Some 10000"
    by (simp add: parse_duration_values)
next
  assume a: "strtof tok = (Fin r, ''ms'') \<and> round_f32 (r / 10) = Fin p \<and> 65535 \<le> p"
  then have "parse_duration tok = Some (trunc (max (- 1) (min 65535 p)))"
    using parse_duration_ms [of tok r p] by simp
  moreover have "max (- 1) (min 65535 p) = 65535"
    using a by simp
  ultimately show "parse_duration tok = Some 65535"
    by (simp add: trunc_def)
qed

theorem parse_duration_100000ms_witness:
  "strtof ''1000000ms'' = (Fin 1000000, ''ms'') \<and> round_f32 (1000000 / 10) = Fin 100000 \<and>
   (65535::rat) \<le> 100000 \<and> parse_duration ''1000000ms'' = Some 65535"
proof -
  have h: "strtof ''1000000ms'' = (Fin 1000000, ''ms'') \<and> round_f32 (1000000 / 10) = Fin 100000 \<and>
    (65535::rat) \<le> 100000"
    by (simp add: strtof_values round_f32_values)
  then show ?thesis
    using parse_duration_100000ms [of "''1000000ms''" 1000000 100000] by blast
qed

text \<open>
  C3. The claim: \<^verbatim>\<open>parse_duration\<close> returns \<open>-1\<close> for a token without a numeric
  prefix. For the tokens \<^verbatim>\<open>"s"\<close> and \<^verbatim>\<open>"ms"\<close> \<^verbatim>\<open>strtof\<close> converts nothing,
  returns 0 and leaves \<^verbatim>\<open>end\<close> at the unit, which the code then accepts:
  the duration is 0, and \<^verbatim>\<open>blink c red s\<close> writes a report.
\<close>

theorem unit_without_number_is_zero:
  "strtof ''s'' = (Fin 0, ''s'') \<and> parse_duration ''s'' = Some 0 \<and>
   strtof ''ms'' = (Fin 0, ''ms'') \<and> parse_duration ''ms'' = Some 0 \<and>
   main posix [''c'', ''red'', ''s''] 9 =
     Some \<lparr>status = 0, out = [1, 99, 255, 0, 0, 0, 0, 0, 0], err = []\<rparr>"
  by (simp add: main_defs strtof_values parse_duration_values parse_color_values R_def G_def B_def)

text \<open>
  C4. \<^verbatim>\<open>parse_color\<close> returns for each name of the table its 24-bit value, and the
  channels \<^verbatim>\<open>R\<close>, \<^verbatim>\<open>G\<close>, \<^verbatim>\<open>B\<close> of that value (bits 16 to 23, 8 to 15, 0 to 7) are
  bytes that put together give the value again; the match is exact, so \<^verbatim>\<open>Red\<close> is no
  name. For a string of 1 to 6 hexadecimal digits it returns the number the digits denote
  in base 16. It returns \<open>-1\<close> for a token that is no name when \<^verbatim>\<open>strtoul\<close> gives more
  than \<^verbatim>\<open>0xFFFFFF\<close>, when characters are left after the number (so whenever the last
  character is no hexadecimal digit), and for the empty token; in particular for
  hexadecimal digits that denote more than \<^verbatim>\<open>0xFFFFFF\<close>.
\<close>

theorem parse_color_spec:
  "(\<forall>(name, v) \<in> set colors.
      parse_color name = int v \<and> v \<le> 0xFFFFFF \<and>
      R (int v) * 65536 + G (int v) * 256 + B (int v) = int v \<and>
      0 \<le> R (int v) \<and> R (int v) \<le> 255 \<and> 0 \<le> G (int v) \<and> G (int v) \<le> 255 \<and>
      0 \<le> B (int v) \<and> B (int v) \<le> 255) \<and>
   parse_color ''blue'' = 0x0000FF \<and> parse_color ''cyan'' = 0x00FFFF \<and>
   parse_color ''green'' = 0x00FF00 \<and> parse_color ''purple'' = 0xFF00FF \<and>
   parse_color ''red'' = 0xFF0000 \<and> parse_color ''white'' = 0xFFFFFF \<and>
   parse_color ''yellow'' = 0xFFFF00 \<and> parse_color ''Red'' = - 1 \<and>
   (s \<noteq> [] \<and> length s \<le> 6 \<and> (\<forall>c \<in> set s. isxdigit c) \<longrightarrow>
      parse_color s = int (digits_val 16 s)) \<and>
   (s \<notin> fst ` set colors \<and>
    (0xFFFFFF < fst (strtoul16 s) \<or> snd (strtoul16 s) \<noteq> [] \<or> s = []) \<longrightarrow>
      parse_color s = - 1) \<and>
   (s \<notin> fst ` set colors \<and> s \<noteq> [] \<and> \<not> isxdigit (last s) \<longrightarrow> parse_color s = - 1) \<and>
   ((\<forall>c \<in> set s. isxdigit c) \<and> 0xFFFFFF < digits_val 16 s \<longrightarrow> parse_color s = - 1)"
proof (intro conjI impI ballI)
  fix x assume xs: "x \<in> set colors"
  obtain name v where x: "x = (name, v)"
    by (cases x)
  have m: "(name, v) \<in> set colors"
    using xs x by simp
  have v: "parse_color name = int v \<and> v \<le> 0xFFFFFF"
    by (rule registry_values [OF m])
  then have "0 \<le> int v" "int v < 2 ^ 24"
    by simp_all
  then have "R (int v) * 65536 + G (int v) * 256 + B (int v) = int v"
    by (rule channels_roundtrip)
  then show "case x of (name, v) \<Rightarrow>
      parse_color name = int v \<and> v \<le> 0xFFFFFF \<and>
      R (int v) * 65536 + G (int v) * 256 + B (int v) = int v \<and>
      0 \<le> R (int v) \<and> R (int v) \<le> 255 \<and> 0 \<le> G (int v) \<and> G (int v) \<le> 255 \<and>
      0 \<le> B (int v) \<and> B (int v) \<le> 255"
    using v channels_range [of "int v"] by (simp add: x)
next
  assume "s \<noteq> [] \<and> length s \<le> 6 \<and> (\<forall>c \<in> set s. isxdigit c)"
  then show "parse_color s = int (digits_val 16 s)"
    using parse_color_short_xdigits by blast
next
  assume "s \<notin> fst ` set colors \<and>
    (0xFFFFFF < fst (strtoul16 s) \<or> snd (strtoul16 s) \<noteq> [] \<or> s = [])"
  then show "parse_color s = - 1"
    using parse_color_fails by blast
next
  assume "s \<notin> fst ` set colors \<and> s \<noteq> [] \<and> \<not> isxdigit (last s)"
  then show "parse_color s = - 1"
    using parse_color_fails [of s] strtoul16_rest [of s] by blast
next
  assume a: "(\<forall>c \<in> set s. isxdigit c) \<and> 0xFFFFFF < digits_val 16 s"
  then have "s \<noteq> []"
    by (auto simp: digits_val_def)
  then show "parse_color s = - 1"
    using a parse_color_xdigits [of s] by simp
qed (simp_all add: parse_color_values parse_color_more_values)


theorem parse_color_spec_witness:
  "(''red'', 0xFF0000) \<in> set colors \<and> parse_color ''red'' = 0xFF0000 \<and>
   R 0xFF0000 = 255 \<and> G 0xFF0000 = 0 \<and> B 0xFF0000 = 0 \<and>
   length ''ff00ff'' \<le> 6 \<and> digits_val 16 ''ff00ff'' = 0xFF00FF \<and>
   parse_color ''ff00ff'' = 0xFF00FF \<and>
   ''12g'' \<notin> fst ` set colors \<and> \<not> isxdigit (last ''12g'') \<and> snd (strtoul16 ''12g'') = ''g'' \<and>
   parse_color ''12g'' = - 1 \<and>
   digits_val 16 ''1000000'' = 0x1000000 \<and> parse_color ''1000000'' = - 1"
proof -
  have 1: "(''red'', 0xFF0000) \<in> set colors"
    by (simp add: colors_def)
  have 2: "''ff00ff'' \<noteq> [] \<and> length ''ff00ff'' \<le> 6 \<and> (\<forall>c \<in> set ''ff00ff''. isxdigit c)"
    by (simp add: isxdigit_def)
  have 3: "''12g'' \<notin> fst ` set colors \<and> ''12g'' \<noteq> [] \<and> \<not> isxdigit (last ''12g'')"
    by (simp add: color_names isxdigit_def)
  have 4: "(\<forall>c \<in> set ''1000000''. isxdigit c) \<and> 0xFFFFFF < digits_val 16 ''1000000''"
    by (simp add: char_defs)
  have 5: "digits_val 16 ''ff00ff'' = 0xFF00FF" "digits_val 16 ''1000000'' = 0x1000000"
    "snd (strtoul16 ''12g'') = ''g''" "R 0xFF0000 = 255 \<and> G 0xFF0000 = 0 \<and> B 0xFF0000 = 0"
    by (simp_all add: char_defs strtoul16_def R_def G_def B_def)
  have a: "parse_color ''red'' = 0xFF0000"
    using parse_color_spec [of "''red''", THEN conjunct1] 1 by fastforce
  have b: "parse_color ''ff00ff'' = 0xFF00FF"
    using parse_color_spec [of "''ff00ff''"] 2 5(1) by simp
  have c: "parse_color ''12g'' = - 1"
    using parse_color_spec [of "''12g''"] 3 by blast
  have d: "parse_color ''1000000'' = - 1"
    using parse_color_spec [of "''1000000''"] 4 by blast
  show ?thesis
    using 1 2 3 5 a b c d by simp
qed

text \<open>
  C5. \<^verbatim>\<open>blink P green 2s 2\<close> writes the report with the channels (0, 255, 0) in bytes
  2 to 4, the duration 200 big-endian in bytes 5 and 6 and the position 2 in byte 7. Case
  \<^verbatim>\<open>'P'\<close> stores the position, then the two bytes of the duration, then the three
  channels, one after the other into the same buffer.
\<close>

theorem pattern_entry_report:
  "main posix [''P'', ''green'', ''2s'', ''2''] 9 =
     Some \<lparr>status = 0, out = [1, 80, 0, 255, 0, 0, 200, 2, 0], err = []\<rparr> \<and>
   (atoi p = Some position \<and> 0 \<le> position \<and> position \<le> 11 \<and>
    parse_duration d = Some duration \<and> 0 \<le> duration \<longrightarrow>
    case_P buf [c, d, p] =
      Some (Inr (buf[7 := word_of_int position,
                     5 := word_of_int (drop_bit 8 duration),
                     6 := word_of_int (duration AND 0xff),
                     2 := word_of_int (R (parse_color c)),
                     3 := word_of_int (G (parse_color c)),
                     4 := word_of_int (B (parse_color c))])))"
  by (simp add: main_def main_command_def check_syntax_commands switch_def case_P_def case_c_def
      case_n_def Let_def write_buf_def MSG_SIZE_def parse_duration_values atoi_values
      parse_color_values R_def G_def B_def)

theorem pattern_entry_report_witness:
  "atoi ''2'' = Some 2 \<and> parse_duration ''2s'' = Some 200 \<and>
   case_P [1, 80, 0, 0, 0, 0, 0, 0, 0] [''green'', ''2s'', ''2''] =
     Some (Inr [1, 80, 0, 255, 0, 0, 200, 2, 0])"
  using pattern_entry_report [of False "''2''" 2 "''2s''" 200 "[1, 80, 0, 0, 0, 0, 0, 0, 0]" "''green''"]
  by (simp add: parse_duration_values atoi_values parse_color_values R_def G_def B_def)

text \<open>
  C6. When the number of arguments after a command letter of the table is not the
  \<^verbatim>\<open>argc\<close> of its entry, \<^verbatim>\<open>main\<close> prints the description and the usage text of the
  entry and returns 1 with nothing written, whatever the arguments are: no argument is
  parsed. \<^verbatim>\<open>blink c red\<close> is such a run.
\<close>

theorem arity_mismatch_is_usage_error:
  "(getopt posix argv = Operands ([cmd e] # args) \<and> e \<in> set commands \<and> length args \<noteq> argc e \<longrightarrow>
      main posix argv wret = Some \<lparr>status = 1, out = [], err = desc e @ nl @ usage e @ nl\<rparr>) \<and>
   main posix [''c'', ''red''] wret =
     Some \<lparr>status = 1, out = [], err = ''Fade to RGB color'' @ nl @ USAGE_FADE @ nl\<rparr>"
proof (intro conjI impI)
  assume a: "getopt posix argv = Operands ([cmd e] # args) \<and> e \<in> set commands \<and> length args \<noteq> argc e"
  then have "main posix argv wret = main_command ([cmd e] # args) wret"
    by (simp add: main_operands)
  moreover have "main_command ([cmd e] # args) wret =
      Some \<lparr>status = 1, out = [], err = desc e @ nl @ usage e @ nl\<rparr>"
    using a
    by (auto simp: main_command_def check_syntax_commands commands_def COMMAND_def error_exit_def)
  ultimately show
    "main posix argv wret = Some \<lparr>status = 1, out = [], err = desc e @ nl @ usage e @ nl\<rparr>"
    by simp
next
  show "main posix [''c'', ''red''] wret =
     Some \<lparr>status = 1, out = [], err = ''Fade to RGB color'' @ nl @ USAGE_FADE @ nl\<rparr>"
    by (simp add: main_def main_command_def check_syntax_commands error_exit_def)
qed

theorem arity_mismatch_is_usage_error_witness:
  "getopt False [''P'', ''green''] = Operands ([cmd (commands ! 4)] # [''green'']) \<and>
   commands ! 4 \<in> set commands \<and> length [''green''] \<noteq> argc (commands ! 4) \<and>
   main False [''P'', ''green''] 9 =
     Some \<lparr>status = 1, out = [], err = ''Set pattern entry'' @ nl @ USAGE_PATT @ nl\<rparr>"
  using arity_mismatch_is_usage_error [of False "[''P'', ''green'']" "commands ! 4" "[''green'']" 9]
  by (simp add: commands_def COMMAND_def)

text \<open>
  C7. For the command \<^verbatim>\<open>p\<close> with two arguments whose numbers \<^verbatim>\<open>atoi\<close> can
  represent, byte 2 of the report is 1 when the first number is not 0 and 0 otherwise, and
  byte 3 is the second number clamped to 0..11; no position is an error. An argument
  without a digit after white space and sign is read as 0.
\<close>

theorem play_pause_report:
  "(getopt posix argv = Operands [''p'', a, b] \<and> atoi a = Some play \<and> atoi b = Some position \<longrightarrow>
      main posix argv wret =
        Some \<lparr>status = (if wret = 9 then 0 else 1),
              out = take (nat wret)
                [1, 112, if play \<noteq> 0 then 1 else 0, word_of_int (max 0 (min 11 position)),
                 0, 0, 0, 0, 0],
              err = []\<rparr>) \<and>
   (takeWhile isdigit (snd (opt_sign (dropWhile isspace s))) = [] \<longrightarrow> atoi s = Some 0)"
  by (auto simp: main_operands main_command_def check_syntax_commands switch_def case_p_def
      write_buf_def MSG_SIZE_def CLAMP_def MIN_int_def MAX_int_def atoi_no_digit)

theorem play_pause_report_witness:
  "getopt True [''p'', ''abc'', ''12''] = Operands [''p'', ''abc'', ''12''] \<and>
   atoi ''abc'' = Some 0 \<and> atoi ''12'' = Some 12 \<and>
   main True [''p'', ''abc'', ''12''] 9 =
     Some \<lparr>status = 0, out = [1, 112, 0, 11, 0, 0, 0, 0, 0], err = []\<rparr> \<and>
   takeWhile isdigit (snd (opt_sign (dropWhile isspace ''abc''))) = []"
  using play_pause_report [of True "[''p'', ''abc'', ''12'']" "''abc''" "''12''" 0 12 9 "''abc''"]
  by (simp add: atoi_values char_defs)

text \<open>
  C8. A negative result of \<^verbatim>\<open>parse_duration\<close> in the commands \<^verbatim>\<open>c\<close>, \<^verbatim>\<open>P\<close> and
  \<^verbatim>\<open>D\<close>, and a position outside 0..11 in the command \<^verbatim>\<open>P\<close>, end the run with
  status 1, a message on standard error and no byte written. (The numbers are those
  \<^verbatim>\<open>atoi\<close> can represent.)
\<close>

theorem value_errors_write_nothing:
  "(parse_duration d = Some r \<and> r < 0 \<longrightarrow>
      main_command [''c'', col, d] wret =
        Some \<lparr>status = 1, out = [], err = ''invalid duration'' @ nl\<rparr>) \<and>
   (atoi p = Some pos \<and> (pos < 0 \<or> 11 < pos) \<longrightarrow>
      main_command [''P'', col, d, p] wret =
        Some \<lparr>status = 1, out = [], err = ''invalid position '' @ show_int pos @ nl\<rparr>) \<and>
   (atoi p = Some pos \<and> 0 \<le> pos \<and> pos \<le> 11 \<and> parse_duration d = Some r \<and> r < 0 \<longrightarrow>
      main_command [''P'', col, d, p] wret =
        Some \<lparr>status = 1, out = [], err = ''invalid duration'' @ nl\<rparr>) \<and>
   (atoi a = Some play \<and> parse_duration d = Some r \<and> r < 0 \<longrightarrow>
      main_command [''D'', a, d] wret =
        Some \<lparr>status = 1, out = [], err = ''invalid duration'' @ nl\<rparr>)"
  by (auto simp: main_command_def check_syntax_commands switch_def case_P_def case_c_def case_D_def
      error_exit_def)

theorem value_errors_write_nothing_witness:
  "parse_duration ''-5'' = Some (- 1) \<and> atoi ''12'' = Some 12 \<and> atoi ''1'' = Some 1 \<and>
   main_command [''c'', ''red'', ''-5''] 9 =
     Some \<lparr>status = 1, out = [], err = ''invalid duration'' @ nl\<rparr> \<and>
   main_command [''P'', ''red'', ''-5'', ''12''] 9 =
     Some \<lparr>status = 1, out = [], err = ''invalid position 12'' @ nl\<rparr> \<and>
   main_command [''D'', ''1'', ''-5''] 9 =
     Some \<lparr>status = 1, out = [], err = ''invalid duration'' @ nl\<rparr> \<and>
   atoi ''2'' = Some 2 \<and> parse_duration ''abc'' = Some (- 1) \<and>
   main_command [''P'', ''red'', ''abc'', ''2''] 9 =
     Some \<lparr>status = 1, out = [], err = ''invalid duration'' @ nl\<rparr>"
  using
    value_errors_write_nothing [of "''-5''" "- 1" "''red''" 9 "''12''" 12 "''1''" 1]
    value_errors_write_nothing [of "''abc''" "- 1" "''red''" 9 "''2''" 2 "''1''" 1]
  by (simp add: parse_duration_values atoi_values show_int_values)

text \<open>
  C9. A run that passes the options and ends with status 0 has written exactly 9 bytes:
  the first is 1, the second is the command letter and the last is 0.
\<close>

theorem report_frame:
  assumes "getopt posix argv = Operands ops" and "main posix argv wret = Some oc"
    and "status oc = 0"
  shows "length (out oc) = 9 \<and> out oc ! 0 = 1 \<and> out oc ! 1 = of_char (hd (hd ops)) \<and>
    out oc ! 8 = 0"
proof -
  have m: "main_command ops wret = Some oc"
    using assms(1,2) by (simp add: main_operands)
  obtain a args where ops: "ops = a # args" and a: "length a = 1"
    using m assms(3) by (cases ops) (auto simp: main_command_def error_exit_def split: if_splits)
  define buf :: "byte list" where "buf = [1, 0, 0, 0, 0, 0, 0, 0, 0][1 := of_char (hd a)]"
  have "check_syntax commands (hd a) (length args) = None"
    using m assms(3) ops a check_syntax_status [of commands "hd a" "length args"]
    by (cases "check_syntax commands (hd a) (length args)") (auto simp: main_command_def)
  then obtain b where sw: "switch (hd a) buf args = Some (Inr b)" and oc: "oc = write_buf b wret"
    using m assms(3) ops a switch_Inl_status [of "hd a" buf args]
    by (auto simp: main_command_def buf_def Let_def split: option.splits sum.splits)
  have w: "wret = 9"
    using oc assms(3) by (simp add: write_buf_def MSG_SIZE_def split: if_splits)
  have fr: "length b = 9 \<and> b ! 0 = 1 \<and> b ! 1 = of_char (hd a) \<and> b ! 8 = 0"
    using switch_Inr_frame [OF sw] by (simp add: buf_def)
  then show ?thesis
    using oc w ops by (simp add: write_buf_def)
qed

theorem report_frame_witness:
  "getopt False [''D'', ''1'', ''2s''] = Operands [''D'', ''1'', ''2s''] \<and>
   main False [''D'', ''1'', ''2s''] 9 =
     Some \<lparr>status = 0, out = [1, 68, 1, 0, 200, 0, 0, 0, 0], err = []\<rparr> \<and>
   length [1, 68, 1, 0, 200, 0, 0, 0, 0 :: byte] = 9 \<and>
   [1, 68, 1, 0, 200, 0, 0, 0, 0 :: byte] ! 1 = of_char (CHR ''D'')"
proof -
  have g: "getopt False [''D'', ''1'', ''2s''] = Operands [''D'', ''1'', ''2s'']"
    by simp
  have m: "main False [''D'', ''1'', ''2s''] 9 =
     Some \<lparr>status = 0, out = [1, 68, 1, 0, 200, 0, 0, 0, 0], err = []\<rparr>"
    by (simp add: main_def main_command_def check_syntax_commands switch_def case_D_def
        write_buf_def MSG_SIZE_def atoi_values parse_duration_values)
  show ?thesis
    using report_frame [OF g m] g m by simp
qed

text \<open>
  C10. \<^verbatim>\<open>parse_color\<close> accepts more than strings of 1 to 6 hexadecimal digits: white
  space, a sign and \<^verbatim>\<open>0x\<close> or \<^verbatim>\<open>0X\<close> may stand before the digits, and there may be
  more than 6 digits, as long as the value \<^verbatim>\<open>strtoul\<close> returns is at most
  \<^verbatim>\<open>0xFFFFFF\<close>. \<^verbatim>\<open>parse_color("0xFF")\<close> is \<^verbatim>\<open>0xFF\<close>.
\<close>

theorem parse_color_lenient:
  "parse_color ''0xFF'' = 0xFF \<and> \<not> isxdigit (CHR ''x'') \<and>
   parse_color ''0000000FF'' = 0xFF \<and> 6 < length ''0000000FF'' \<and>
   ((\<forall>c \<in> set ws. isspace c) \<and> sg \<in> {[], ''+'', ''-''} \<and> px \<in> {[], ''0x'', ''0X''} \<and>
    ds \<noteq> [] \<and> (\<forall>c \<in> set ds. isxdigit c) \<and>
    v = (if ULONG_MAX < digits_val 16 ds then ULONG_MAX
         else if sg = ''-'' then (2 ^ 64 - digits_val 16 ds) mod 2 ^ 64
         else digits_val 16 ds) \<and>
    v \<le> 0xFFFFFF \<longrightarrow>
    parse_color (ws @ sg @ px @ ds) = int v)"
proof (intro conjI impI)
  assume a: "(\<forall>c \<in> set ws. isspace c) \<and> sg \<in> {[], ''+'', ''-''} \<and> px \<in> {[], ''0x'', ''0X''} \<and>
    ds \<noteq> [] \<and> (\<forall>c \<in> set ds. isxdigit c) \<and>
    v = (if ULONG_MAX < digits_val 16 ds then ULONG_MAX
         else if sg = ''-'' then (2 ^ 64 - digits_val 16 ds) mod 2 ^ 64
         else digits_val 16 ds) \<and>
    v \<le> 0xFFFFFF"
  then have s: "strtoul16 (ws @ sg @ px @ ds) = (v, [])"
    using strtoul16_token [of ws sg px ds] by simp
  have "ws @ sg @ px @ ds \<notin> fst ` set colors"
    using a token_not_color [of ws sg px ds] by simp
  then have l: "lookup_color colors (ws @ sg @ px @ ds) = None"
    by (simp add: lookup_color_None_iff)
  show "parse_color (ws @ sg @ px @ ds) = int v"
    using a by (simp add: parse_color_def l s)
qed (simp_all add: parse_color_values parse_color_more_values isxdigit_def)

theorem parse_color_lenient_witness:
  "isspace (CHR '' '') \<and> digits_val 16 ''ff'' = 255 \<and>
   parse_color ''  +0Xff'' = 255"
proof -
  have 1: "(\<forall>c \<in> set ''  ''. isspace c) \<and> ''+'' \<in> {[], ''+'', ''-''} \<and> ''0X'' \<in> {[], ''0x'', ''0X''} \<and>
    ''ff'' \<noteq> [] \<and> (\<forall>c \<in> set ''ff''. isxdigit c)"
    by (simp add: isspace_def isxdigit_def)
  have 2: "digits_val 16 ''ff'' = 255"
    by (simp add: char_defs)
  have "parse_color (''  '' @ ''+'' @ ''0X'' @ ''ff'') = int 255"
    using parse_color_lenient [of "''  ''" "''+''" "''0X''" "''ff''" 255] 1 2
    by (simp add: ULONG_MAX_def)
  then show ?thesis
    using 1 2 by simp
qed

end
